theory Spec2Isabelle
  imports Main "HOL-Library.Word"
begin

section \<open>Constants of the driver\<close>

text \<open>The macros of \<^verbatim>\<open>blockdev.c\<close>, and the sector shift of the block layer headers
  (\<^verbatim>\<open>SECTOR_SHIFT\<close>, 9 in \<^verbatim>\<open>linux/blkdev.h\<close>).\<close>

definition BLOCK_DEV_NAME :: string where
  "BLOCK_DEV_NAME = ''my_block_device''"

definition NR_SECTORS :: nat where
  "NR_SECTORS = 1024"

definition K_SECTOR_SIZE :: nat where
  "K_SECTOR_SIZE = 512"

definition BUFFER_SIZE :: nat where
  "BUFFER_SIZE = 8"

definition SECTOR_SHIFT :: nat where
  "SECTOR_SHIFT = 9"

definition EBUSY :: int where
  "EBUSY = 16"

definition ENOMEM :: int where
  "ENOMEM = 12"

section \<open>The data path: \<^verbatim>\<open>do_request\<close> and \<^verbatim>\<open>my_queue_rq\<close>\<close>

subsection \<open>Requests as the block layer hands them over\<close>

datatype data_dir = READ | WRITE

text \<open>A \<^verbatim>\<open>struct bio_vec\<close>: a page, an offset into it and a length, the last two
  \<^verbatim>\<open>unsigned int\<close>.\<close>

record bio_vec =
  bv_page :: nat
  bv_offset :: "32 word"
  bv_len :: "32 word"

text \<open>What the driver reads of a \<^verbatim>\<open>struct request\<close>: \<^verbatim>\<open>blk_rq_pos\<close> (a 64-bit
  sector number), \<^verbatim>\<open>rq_data_dir\<close>, and the segments that \<^verbatim>\<open>rq_for_each_segment\<close>
  yields, in the order it yields them.\<close>

record request =
  blk_rq_pos :: "64 word"
  rq_data_dir :: data_dir
  rq_segments :: "bio_vec list"

datatype blk_status = BLK_STS_OK | BLK_STS_IOERR

text \<open>The calls the dispatcher makes into the block layer.\<close>

datatype host_call =
    Start_request request
  | Update_request request blk_status "32 word"
  | End_request request blk_status

text \<open>The two host functions whose results the data path consumes. They are not part
  of the driver, so they are parameters: \<^verbatim>\<open>page_address\<close> maps a page to its kernel
  address, \<^verbatim>\<open>blk_update_request\<close> answers whether the request still has bytes pending
  (\<^verbatim>\<open>true\<close>) after the report.\<close>

record host =
  page_address :: "nat \<Rightarrow> 64 word"
  blk_update_request :: "request \<Rightarrow> blk_status \<Rightarrow> 32 word \<Rightarrow> bool"

text \<open>The byte count the block layer keeps for a request, an \<^verbatim>\<open>unsigned int\<close>: the
  bytes of its segments. \<^verbatim>\<open>blk_update_request\<close> answers "bytes pending" exactly when
  fewer bytes were reported than the request holds; a host honours this contract on a
  request when its answers for that request are those of \<open>pending_after\<close>.\<close>

definition blk_rq_bytes :: "request \<Rightarrow> 32 word" where
  "blk_rq_bytes rq = sum_list (map bv_len (rq_segments rq))"

definition pending_after :: "request \<Rightarrow> blk_status \<Rightarrow> 32 word \<Rightarrow> bool" where
  "pending_after rq st n = (n < blk_rq_bytes rq)"

text \<open>Everything the data path could touch: the bytes of the backing buffer
  (\<^verbatim>\<open>dev->data\<close>), the kernel memory the segments point into, the kernel log and the
  calls made into the block layer so far.\<close>

record io_state =
  backing :: "8 word list"
  memory :: "64 word \<Rightarrow> 8 word"
  klog :: "string list"
  host_calls :: "host_call list"

datatype fault = BUG | NULL_DEREF

subsection \<open>\<^verbatim>\<open>do_request\<close>\<close>

text \<open>The frame of \<^verbatim>\<open>do_request\<close>: its locals \<^verbatim>\<open>offset\<close> (\<^verbatim>\<open>loff_t\<close>), \<^verbatim>\<open>data\<close>
  and \<^verbatim>\<open>data_len\<close> (\<^verbatim>\<open>unsigned long\<close>; both unset before the first iteration), the
  \<^verbatim>\<open>unsigned int\<close> behind the pointer \<^verbatim>\<open>nr_bytes\<close>, and the state.\<close>

record frame =
  offset :: "64 word"
  data_ptr :: "64 word option"
  data_len :: "64 word option"
  nr_bytes :: "32 word"
  io :: io_state

text \<open>The log holds one entry per line written, without its line feed.\<close>

definition printk :: "string \<Rightarrow> io_state \<Rightarrow> io_state" where
  "printk msg s = s\<lparr>klog := klog s @ [msg]\<rparr>"

text \<open>One iteration of the loop body, lines 64 to 74. The additions are those of C:
  \<^verbatim>\<open>offset += data_len\<close> in 64 bits, \<^verbatim>\<open>*nr_bytes += data_len\<close> in 64 bits and then cut
  to the 32 bits of \<^verbatim>\<open>unsigned int\<close>.\<close>

definition segment_body :: "host \<Rightarrow> request \<Rightarrow> bio_vec \<Rightarrow> frame \<Rightarrow> frame" where
  "segment_body h rq bvec f =
     (let d = page_address h (bv_page bvec) + ucast (bv_offset bvec);
          dl = (ucast (bv_len bvec) :: 64 word);
          s = (if rq_data_dir rq = WRITE
               then printk ''Writing data to the blk-mq device'' (io f)
               else printk ''Reading data from the blk-mq device'' (io f))
      in f\<lparr>offset := offset f + dl,
            data_ptr := Some d,
            data_len := Some dl,
            nr_bytes := ucast ((ucast (nr_bytes f) :: 64 word) + dl),
            io := s\<rparr>)"

text \<open>\<^verbatim>\<open>rq_for_each_segment\<close>: the body once per segment, first to last.\<close>

fun rq_for_each_segment :: "(bio_vec \<Rightarrow> frame \<Rightarrow> frame) \<Rightarrow> bio_vec list \<Rightarrow> frame \<Rightarrow> frame" where
  "rq_for_each_segment body [] f = f"
| "rq_for_each_segment body (bvec # rest) f = rq_for_each_segment body rest (body bvec f)"

definition do_request_entry :: "request \<Rightarrow> 32 word \<Rightarrow> io_state \<Rightarrow> frame" where
  "do_request_entry rq nr s =
     \<lparr>offset = push_bit SECTOR_SHIFT (blk_rq_pos rq),
      data_ptr = None, data_len = None, nr_bytes = nr, io = s\<rparr>"

definition do_request_frame :: "host \<Rightarrow> request \<Rightarrow> 32 word \<Rightarrow> io_state \<Rightarrow> frame" where
  "do_request_frame h rq nr s =
     rq_for_each_segment (segment_body h rq) (rq_segments rq) (do_request_entry rq nr s)"

text \<open>\<^verbatim>\<open>do_request\<close> returns 0 on every path; the caller sees the return value, the
  updated \<^verbatim>\<open>*nr_bytes\<close> and the state.\<close>

definition do_request :: "host \<Rightarrow> request \<Rightarrow> 32 word \<Rightarrow> io_state \<Rightarrow> int \<times> 32 word \<times> io_state" where
  "do_request h rq nr s =
     (let f = do_request_frame h rq nr s in (0, nr_bytes f, io f))"

subsection \<open>\<^verbatim>\<open>my_queue_rq\<close>\<close>

definition call_host :: "host_call \<Rightarrow> io_state \<Rightarrow> io_state" where
  "call_host c s = s\<lparr>host_calls := host_calls s @ [c]\<rparr>"

text \<open>The queue callback. \<^verbatim>\<open>BUG()\<close> does not return: the result is then the fault and
  the state at that point.\<close>

definition my_queue_rq :: "host \<Rightarrow> request \<Rightarrow> io_state \<Rightarrow> (fault + blk_status) \<times> io_state" where
  "my_queue_rq h rq s =
     (let s1 = call_host (Start_request rq) s;
          (rc, nr, s2) = do_request h rq 0 s1;
          status = (if rc \<noteq> 0 then BLK_STS_IOERR else BLK_STS_OK);
          s3 = call_host (Update_request rq status nr) s2
      in if blk_update_request h rq status nr then (Inl BUG, s3)
         else (Inr status, call_host (End_request rq status) s3))"

text \<open>The loop again, keeping the frame reached after each iteration: the history of
  the walk, whose last element is the frame the loop ends in.\<close>

fun frames_after :: "(bio_vec \<Rightarrow> frame \<Rightarrow> frame) \<Rightarrow> bio_vec list \<Rightarrow> frame \<Rightarrow> frame list" where
  "frames_after body [] f = []"
| "frames_after body (bvec # rest) f = body bvec f # frames_after body rest (body bvec f)"

definition do_request_history :: "host \<Rightarrow> request \<Rightarrow> 32 word \<Rightarrow> io_state \<Rightarrow> frame list" where
  "do_request_history h rq nr s =
     frames_after (segment_body h rq) (rq_segments rq) (do_request_entry rq nr s)"

subsection \<open>Vocabulary of the specification\<close>

text \<open>The bytes a segment designates in kernel memory.\<close>

definition segment_bytes :: "host \<Rightarrow> io_state \<Rightarrow> bio_vec \<Rightarrow> 8 word list" where
  "segment_bytes h s bvec =
     map (\<lambda>i. memory s (page_address h (bv_page bvec) + ucast (bv_offset bvec) + of_nat i))
       [0..<unat (bv_len bvec)]"

text \<open>The reports a state has seen: status and byte count of each
  \<^verbatim>\<open>blk_update_request\<close> call, oldest first.\<close>

fun reports :: "host_call list \<Rightarrow> (blk_status \<times> 32 word) list" where
  "reports [] = []"
| "reports (Update_request rq st n # cs) = (st, n) # reports cs"
| "reports (c # cs) = reports cs"

text \<open>The device offset each segment of a request is met at, and whether one of them
  ends beyond the backing buffer.\<close>

fun segment_offsets :: "64 word \<Rightarrow> bio_vec list \<Rightarrow> (64 word \<times> bio_vec) list" where
  "segment_offsets off [] = []"
| "segment_offsets off (bvec # rest) = (off, bvec) # segment_offsets (off + ucast (bv_len bvec)) rest"

definition out_of_bounds :: "request \<Rightarrow> bool" where
  "out_of_bounds rq =
     list_ex (\<lambda>(off, bvec). BUFFER_SIZE < unat off + unat (bv_len bvec))
       (segment_offsets (push_bit SECTOR_SHIFT (blk_rq_pos rq)) (rq_segments rq))"

text \<open>The calls one request draws when it is served in full: started, reported and
  ended, once each and in that order, report and end carrying the same status.\<close>

fun served_once :: "request \<Rightarrow> host_call list \<Rightarrow> bool" where
  "served_once rq [Start_request a, Update_request b st n, End_request c st'] =
     (a = rq \<and> b = rq \<and> c = rq \<and> st' = st)"
| "served_once rq cs = False"

definition dir_message :: "data_dir \<Rightarrow> string" where
  "dir_message d = (if d = WRITE then ''Writing data to the blk-mq device''
                    else ''Reading data from the blk-mq device'')"

subsection \<open>Concrete hosts, states and requests\<close>

definition host_done :: host where
  "host_done = \<lparr>page_address = (\<lambda>p. push_bit 12 (of_nat p)),
                blk_update_request = (\<lambda>rq st n. False)\<rparr>"

definition host_block_layer :: host where
  "host_block_layer = \<lparr>page_address = (\<lambda>p. push_bit 12 (of_nat p)),
                       blk_update_request = pending_after\<rparr>"

definition io_fresh :: io_state where
  "io_fresh = \<lparr>backing = [0, 0, 0, 0, 0, 0, 0, 0], memory = (\<lambda>a. ucast a + 1),
               klog = [], host_calls = []\<rparr>"

definition seg8 :: bio_vec where
  "seg8 = \<lparr>bv_page = 1, bv_offset = 0, bv_len = 8\<rparr>"

definition seg4 :: bio_vec where
  "seg4 = \<lparr>bv_page = 2, bv_offset = 16, bv_len = 4\<rparr>"

definition rq_scenario_A :: request where
  "rq_scenario_A = \<lparr>blk_rq_pos = 0, rq_data_dir = WRITE, rq_segments = [seg8]\<rparr>"

definition rq_empty :: request where
  "rq_empty = \<lparr>blk_rq_pos = 0, rq_data_dir = READ, rq_segments = []\<rparr>"

definition rq_two :: request where
  "rq_two = \<lparr>blk_rq_pos = 0, rq_data_dir = READ, rq_segments = [seg4, seg4]\<rparr>"

definition rq_beyond :: request where
  "rq_beyond = \<lparr>blk_rq_pos = 1, rq_data_dir = WRITE, rq_segments = [seg8]\<rparr>"

section \<open>The life cycle: \<^verbatim>\<open>init_fn\<close> and \<^verbatim>\<open>cleanup_fn\<close>\<close>

subsection \<open>Device descriptor and module state\<close>

text \<open>What \<^verbatim>\<open>blk_mq_init_sq_queue\<close> can return and \<^verbatim>\<open>dev->queue\<close> can hold: the null
  pointer of zeroed storage, an error pointer, or a queue.\<close>

datatype queue_ptr = NULL_QUEUE | ERR_PTR int | QUEUE nat

text \<open>The fields of \<^verbatim>\<open>struct gendisk\<close> that the driver writes; \<open>fops\<close> names the
  operations table it points to, \<open>private_data\<close> tells whether it points to the
  descriptor.\<close>

record gendisk =
  major :: int
  first_minor :: int
  fops :: "string option"
  gd_queue :: queue_ptr
  private_data :: bool
  disk_name :: string
  capacity :: nat

text \<open>\<^verbatim>\<open>struct my_block_dev\<close>. The tag set and the spin lock are storage that only the
  block layer works on, through \<^verbatim>\<open>blk_mq_init_sq_queue\<close> and \<^verbatim>\<open>blk_mq_free_tag_set\<close>;
  pointers are \<open>None\<close> when null, and \<open>data\<close> is the address of the buffer.\<close>

record my_block_dev =
  gd :: "gendisk option"
  queue :: queue_ptr
  data :: "nat option"
  dev_size :: int

text \<open>The calls the life cycle makes into the kernel, log lines included.\<close>

datatype kcall =
    Register_blkdev int string
  | Unregister_blkdev int string
  | Alloc_disk nat
  | Blk_mq_init_sq_queue nat
  | Set_capacity nat
  | Kmalloc nat
  | Add_disk gendisk
  | Del_gendisk gendisk
  | Put_disk gendisk
  | Blk_mq_free_tag_set
  | Blk_cleanup_queue queue_ptr
  | Kfree "nat option"
  | Pr_info string

text \<open>The globals \<^verbatim>\<open>major_num\<close> and \<^verbatim>\<open>dev\<close> (a pointer: \<open>None\<close> is null), and the
  calls made so far.\<close>

record module_state =
  major_num :: int
  dev :: "my_block_dev option"
  kcalls :: "kcall list"

text \<open>What the kernel answers during setup: the number \<^verbatim>\<open>register_blkdev\<close> returns for
  the number asked, the disk of \<^verbatim>\<open>alloc_disk\<close> (null on failure), the pointer of
  \<^verbatim>\<open>blk_mq_init_sq_queue\<close> and the buffer of \<^verbatim>\<open>kmalloc\<close> (null on failure).\<close>

record kernel =
  register_blkdev :: "int \<Rightarrow> int"
  alloc_disk :: "gendisk option"
  blk_mq_init_sq_queue :: queue_ptr
  kmalloc :: "nat option"

text \<open>The module as loaded: \<^verbatim>\<open>static int major_num = 0\<close> and
  \<^verbatim>\<open>struct my_block_dev *dev\<close>, a global without initialiser, hence null. No statement
  of the file assigns \<^verbatim>\<open>dev\<close>.\<close>

definition module_loaded :: module_state where
  "module_loaded = \<lparr>major_num = 0, dev = None, kcalls = []\<rparr>"

definition kcall :: "kcall \<Rightarrow> module_state \<Rightarrow> module_state" where
  "kcall c s = s\<lparr>kcalls := kcalls s @ [c]\<rparr>"

subsection \<open>\<^verbatim>\<open>init_fn\<close>\<close>

text \<open>The label \<^verbatim>\<open>r_disk\<close>.\<close>

definition r_disk :: "module_state \<Rightarrow> (fault + int) \<times> module_state" where
  "r_disk s = (Inr (- ENOMEM), kcall (Unregister_blkdev (major_num s) BLOCK_DEV_NAME) s)"

text \<open>The label \<^verbatim>\<open>r_blk_init\<close>, which falls through to \<^verbatim>\<open>r_disk\<close>; \<open>d\<close> is the
  descriptor that \<^verbatim>\<open>dev\<close> points to.\<close>

definition r_blk_init :: "my_block_dev \<Rightarrow> module_state \<Rightarrow> (fault + int) \<times> module_state" where
  "r_blk_init d s =
     (let s1 = (case gd d of None \<Rightarrow> s | Some g \<Rightarrow> kcall (Del_gendisk g) s);
          s2 = (if queue d \<noteq> NULL_QUEUE
                then kcall (Blk_cleanup_queue (queue d)) (kcall Blk_mq_free_tag_set s1)
                else s1)
      in r_disk s2)"

text \<open>\<^verbatim>\<open>init_fn\<close>. The first access through \<^verbatim>\<open>dev\<close> is the store of line 124, after
  \<^verbatim>\<open>alloc_disk\<close> has been called; through a null \<^verbatim>\<open>dev\<close> it faults.\<close>

definition init_fn :: "kernel \<Rightarrow> module_state \<Rightarrow> (fault + int) \<times> module_state" where
  "init_fn k s =
     (let s1 = (kcall (Register_blkdev (major_num s) BLOCK_DEV_NAME) s)
                 \<lparr>major_num := register_blkdev k (major_num s)\<rparr>
      in if major_num s1 < 0
         then (Inr (- EBUSY), kcall (Pr_info ''Failed to register blk device numbers'') s1)
         else
           let s2 = kcall (Alloc_disk 1) s1 in
           (case dev s2 of
             None \<Rightarrow> (Inl NULL_DEREF, s2)
           | Some d \<Rightarrow>
               (case alloc_disk k of
                  None \<Rightarrow>
                    r_disk (kcall (Pr_info ''Failed to allocate disk'')
                              (s2\<lparr>dev := Some (d\<lparr>gd := None\<rparr>)\<rparr>))
                | Some g \<Rightarrow>
                    let q = blk_mq_init_sq_queue k;
                        s3 = kcall (Blk_mq_init_sq_queue 128) s2;
                        g' = g\<lparr>major := major_num s3, first_minor := 0,
                               fops := Some ''my_bops'', gd_queue := q,
                               private_data := True,
                               disk_name := take 31 BLOCK_DEV_NAME,
                               capacity := NR_SECTORS\<rparr>;
                        s4 = kcall (Set_capacity NR_SECTORS) s3;
                        buf = kmalloc k;
                        d' = d\<lparr>gd := Some g', queue := q,
                               dev_size := int (NR_SECTORS * K_SECTOR_SIZE), data := buf\<rparr>;
                        s5 = (kcall (Kmalloc BUFFER_SIZE) s4)\<lparr>dev := Some d'\<rparr>
                    in (case buf of
                          None \<Rightarrow>
                            r_blk_init d' (kcall (Pr_info ''Cannot allocate memory for dev'') s5)
                        | Some b \<Rightarrow>
                            (Inr 0,
                             kcall (Pr_info ''Kernel Module - my_block_device inserted successfully...'')
                               (kcall (Add_disk g') s5))))))"

subsection \<open>\<^verbatim>\<open>cleanup_fn\<close>\<close>

definition cleanup_fn :: "module_state \<Rightarrow> (fault + unit) \<times> module_state" where
  "cleanup_fn s =
     (case dev s of
        None \<Rightarrow> (Inl NULL_DEREF, s)
      | Some d \<Rightarrow>
          let s1 = (case gd d of None \<Rightarrow> s
                    | Some g \<Rightarrow> kcall (Put_disk g) (kcall (Del_gendisk g) s));
              s2 = (if queue d \<noteq> NULL_QUEUE
                    then kcall (Blk_cleanup_queue (queue d)) (kcall Blk_mq_free_tag_set s1)
                    else s1);
              s3 = kcall (Kfree (data d)) s2;
              s4 = kcall (Unregister_blkdev (major_num s) BLOCK_DEV_NAME) s3
          in (Inr (), kcall (Pr_info ''Device driver - my_block_device removed successfully'') s4))"

subsection \<open>Concrete kernels and module states\<close>

text \<open>A disk and a descriptor as zeroed allocations give them.\<close>

definition zeroed_disk :: gendisk where
  "zeroed_disk = \<lparr>major = 0, first_minor = 0, fops = None, gd_queue = NULL_QUEUE,
                  private_data = False, disk_name = [], capacity = 0\<rparr>"

definition zeroed_dev :: my_block_dev where
  "zeroed_dev = \<lparr>gd = None, queue = NULL_QUEUE, data = None, dev_size = 0\<rparr>"

definition kernel_ok :: kernel where
  "kernel_ok = \<lparr>register_blkdev = (\<lambda>m. if m = 0 then 240 else 0),
                alloc_disk = Some zeroed_disk,
                blk_mq_init_sq_queue = QUEUE 1,
                kmalloc = Some 4096\<rparr>"

definition kernel_busy :: kernel where
  "kernel_busy = kernel_ok\<lparr>register_blkdev := (\<lambda>m. - EBUSY)\<rparr>"

definition kernel_no_disk :: kernel where
  "kernel_no_disk = kernel_ok\<lparr>alloc_disk := None\<rparr>"

definition kernel_no_queue :: kernel where
  "kernel_no_queue = kernel_ok\<lparr>blk_mq_init_sq_queue := ERR_PTR (- ENOMEM)\<rparr>"

definition kernel_no_buffer :: kernel where
  "kernel_no_buffer = kernel_ok\<lparr>kmalloc := None\<rparr>"

text \<open>The module state the driver would start from had a descriptor been allocated.\<close>

definition module_with_dev :: module_state where
  "module_with_dev = module_loaded\<lparr>dev := Some zeroed_dev\<rparr>"

section \<open>What the segment walk computes\<close>

text \<open>Cutting the 64-bit sum back to 32 bits is the 32-bit sum.\<close>

lemma cut32:
  "(ucast ((ucast (a :: 32 word) :: 64 word) + ucast (b :: 32 word)) :: 32 word) = a + b"
  by transfer (simp add: take_bit_eq_mod mod_simps)

lemma loop_last: "rq_for_each_segment body segs f = last (f # frames_after body segs f)"
  by (induction segs arbitrary: f) auto

lemma loop_offset:
  "offset (rq_for_each_segment (segment_body h rq) segs f) =
     offset f + sum_list (map (\<lambda>b. ucast (bv_len b)) segs)"
  by (induction segs arbitrary: f) (auto simp: segment_body_def Let_def add.assoc)

lemma loop_nr_bytes:
  "nr_bytes (rq_for_each_segment (segment_body h rq) segs f) =
     nr_bytes f + sum_list (map bv_len segs)"
  by (induction segs arbitrary: f) (auto simp: segment_body_def Let_def add.assoc cut32)

lemma loop_io:
  "io (rq_for_each_segment (segment_body h rq) segs f) =
     (io f)\<lparr>klog := klog (io f) @ replicate (length segs) (dir_message (rq_data_dir rq))\<rparr>"
proof (induction segs arbitrary: f)
  case Nil
  show ?case by simp
next
  case (Cons b segs)
  have "io (segment_body h rq b f) = printk (dir_message (rq_data_dir rq)) (io f)"
    by (simp add: segment_body_def Let_def dir_message_def)
  then show ?case
    by (simp add: Cons.IH printk_def replicate_app_Cons_same)
qed

lemma do_request_eq:
  "do_request h rq nr s =
     (0, nr + sum_list (map bv_len (rq_segments rq)),
      s\<lparr>klog := klog s @ replicate (length (rq_segments rq)) (dir_message (rq_data_dir rq))\<rparr>)"
  by (simp add: do_request_def do_request_frame_def Let_def loop_nr_bytes loop_io
      do_request_entry_def)

text \<open>The state and the result of the queue callback, in closed form.\<close>

lemma my_queue_rq_state:
  "snd (my_queue_rq h rq s) =
     s\<lparr>klog := klog s @ replicate (length (rq_segments rq)) (dir_message (rq_data_dir rq)),
       host_calls := host_calls s @ Start_request rq #
          Update_request rq BLK_STS_OK (sum_list (map bv_len (rq_segments rq))) #
          (if blk_update_request h rq BLK_STS_OK (sum_list (map bv_len (rq_segments rq))) then []
           else [End_request rq BLK_STS_OK])\<rparr>"
  by (simp add: my_queue_rq_def do_request_eq Let_def call_host_def)

lemma my_queue_rq_result:
  "fst (my_queue_rq h rq s) =
     (if blk_update_request h rq BLK_STS_OK (sum_list (map bv_len (rq_segments rq))) then Inl BUG
      else Inr BLK_STS_OK)"
  by (simp add: my_queue_rq_def do_request_eq Let_def)

lemma reports_append: "reports (cs @ ds) = reports cs @ reports ds"
  by (induction cs rule: reports.induct) simp_all

lemma reports_tail:
  "reports (host_calls (snd (my_queue_rq h rq s))) =
     reports (host_calls s) @ [(BLK_STS_OK, sum_list (map bv_len (rq_segments rq)))]"
  by (simp add: my_queue_rq_state reports_append)

subsection \<open>Unsigned readings\<close>

lemma unat_sum32:
  "sum_list (map unat (xs :: 32 word list)) < 2 ^ 32 \<Longrightarrow> unat (sum_list xs) = sum_list (map unat xs)"
  by (induction xs) (simp_all add: unat_word_ariths)

lemma unat_sum32_mod:
  "unat (sum_list (xs :: 32 word list)) = sum_list (map unat xs) mod 2 ^ 32"
  by (induction xs) (simp_all add: unat_word_ariths mod_simps)

lemma unat_sum_bv_len:
  "sum_list (map (\<lambda>b. unat (bv_len b)) segs) < 2 ^ 32 \<Longrightarrow>
   unat (sum_list (map bv_len segs)) = sum_list (map (\<lambda>b. unat (bv_len b)) segs)"
  using unat_sum32 [of "map bv_len segs"] by (simp add: comp_def)

lemma unat_ucast_len: "unat (ucast (x :: 32 word) :: 64 word) = unat x"
proof -
  have "unat x < 2 ^ 32" using unsigned_less [of x] by simp
  then have "unat x < 2 ^ 64" by simp
  then show ?thesis by (simp add: unsigned_ucast_eq take_bit_nat_eq_self)
qed

lemma unat_sum64:
  "unat (sum_list (map (\<lambda>b. (ucast (bv_len b) :: 64 word)) segs)) =
     sum_list (map (\<lambda>b. unat (bv_len b)) segs) mod 2 ^ 64"
  by (induction segs) (simp_all add: unat_word_ariths mod_simps unat_ucast_len)

lemma unat_offset:
  assumes "unat pos * 2 ^ SECTOR_SHIFT + sum_list (map (\<lambda>b. unat (bv_len b)) segs) < 2 ^ 64"
  shows "unat (push_bit SECTOR_SHIFT (pos :: 64 word) + sum_list (map (\<lambda>b. ucast (bv_len b)) segs)) =
           unat pos * 2 ^ SECTOR_SHIFT + sum_list (map (\<lambda>b. unat (bv_len b)) segs)"
proof -
  have "unat (push_bit SECTOR_SHIFT pos) = (unat pos * 2 ^ SECTOR_SHIFT) mod 2 ^ 64"
    by (simp add: push_bit_eq_mult unat_word_ariths SECTOR_SHIFT_def)
  then have "unat (push_bit SECTOR_SHIFT pos + sum_list (map (\<lambda>b. ucast (bv_len b)) segs)) =
      (unat pos * 2 ^ SECTOR_SHIFT + sum_list (map (\<lambda>b. unat (bv_len b)) segs)) mod 2 ^ 64"
    by (simp add: unat_word_ariths(1) unat_sum64 mod_simps)
  with assms show ?thesis by simp
qed

subsection \<open>The history of the walk\<close>

lemma history_data_len:
  "map data_len (frames_after (segment_body h rq) segs f) =
     map (\<lambda>b. Some (ucast (bv_len b))) segs"
  by (induction segs arbitrary: f) (simp_all add: segment_body_def Let_def)

lemma history_data_ptr:
  "map data_ptr (frames_after (segment_body h rq) segs f) =
     map (\<lambda>b. Some (page_address h (bv_page b) + ucast (bv_offset b))) segs"
  by (induction segs arbitrary: f) (simp_all add: segment_body_def Let_def)

lemma history_offset:
  "map offset (frames_after (segment_body h rq) segs f) =
     map (\<lambda>k. offset f + sum_list (map (\<lambda>b. ucast (bv_len b)) (take (Suc k) segs)))
       [0..<length segs]"
proof (induction segs arbitrary: f)
  case Nil
  show ?case by simp
next
  case (Cons b segs)
  have step: "offset (segment_body h rq b f) = offset f + ucast (bv_len b)"
    by (simp add: segment_body_def Let_def)
  have "[0..<length (b # segs)] = 0 # map Suc [0..<length segs]"
    by (simp add: upt_conv_Cons map_Suc_upt del: upt_Suc)
  then show ?case
    by (simp add: Cons.IH step add.assoc comp_def del: upt_Suc)
qed

section \<open>Claims about the data path\<close>

subsection \<open>C1: direction of the copy\<close>

text \<open>The claim as written fails in its own scenario A: after a write request at sector 0
  with one segment of length 8, the first 8 bytes of the backing buffer are not the
  bytes of the segment.\<close>

theorem write_copies_counterexample:
  "rq_data_dir rq_scenario_A = WRITE \<and> blk_rq_pos rq_scenario_A = 0 \<and>
   rq_segments rq_scenario_A = [seg8] \<and> bv_len seg8 = 8 \<and>
   fst (my_queue_rq host_done rq_scenario_A io_fresh) = Inr BLK_STS_OK \<and>
   take 8 (backing (snd (my_queue_rq host_done rq_scenario_A io_fresh))) \<noteq>
     segment_bytes host_done io_fresh seg8"
  by (simp add: my_queue_rq_state my_queue_rq_result segment_bytes_def io_fresh_def seg8_def
      host_done_def rq_scenario_A_def upt_rec)

text \<open>Claim C1, as the code has it. For every request the segment walk moves no byte in
  either direction: it leaves the backing buffer and the memory of the segments as they
  were, and logs one line per segment that names the direction. In scenario A (write,
  sector 0, one segment of length 8, the report accepted by the host) the status is
  success, 8 bytes are reported, and the first 8 bytes of the backing buffer keep their
  former content.\<close>

theorem segment_walk_only_logs:
  "backing (snd (my_queue_rq h rq s)) = backing s \<and>
   memory (snd (my_queue_rq h rq s)) = memory s \<and>
   klog (snd (my_queue_rq h rq s)) =
     klog s @ replicate (length (rq_segments rq)) (dir_message (rq_data_dir rq)) \<and>
   (rq_data_dir rq = WRITE \<and> blk_rq_pos rq = 0 \<and> rq_segments rq = [bvec] \<and> bv_len bvec = 8 \<and>
    \<not> blk_update_request h rq BLK_STS_OK 8 \<longrightarrow>
      fst (my_queue_rq h rq s) = Inr BLK_STS_OK \<and>
      reports (host_calls (snd (my_queue_rq h rq s))) = reports (host_calls s) @ [(BLK_STS_OK, 8)] \<and>
      take 8 (backing (snd (my_queue_rq h rq s))) = take 8 (backing s))"
  by (simp add: my_queue_rq_state my_queue_rq_result reports_append)

theorem segment_walk_only_logs_witness:
  "fst (my_queue_rq host_done rq_scenario_A io_fresh) = Inr BLK_STS_OK \<and>
   reports (host_calls (snd (my_queue_rq host_done rq_scenario_A io_fresh))) = [(BLK_STS_OK, 8)] \<and>
   klog (snd (my_queue_rq host_done rq_scenario_A io_fresh)) = [''Writing data to the blk-mq device''] \<and>
   take 8 (backing (snd (my_queue_rq host_done rq_scenario_A io_fresh))) = [0, 0, 0, 0, 0, 0, 0, 0]"
  using segment_walk_only_logs [of host_done rq_scenario_A io_fresh seg8]
  by (simp add: rq_scenario_A_def seg8_def host_done_def io_fresh_def dir_message_def)

subsection \<open>C2: byte count\<close>

text \<open>Claim C2. \<^verbatim>\<open>do_request\<close> fails on no path, and for every request the one report
  made to the host carries status success and, as byte count, the sum of the segment
  lengths, added in the \<^verbatim>\<open>unsigned int\<close> of \<^verbatim>\<open>nr_bytes\<close>; read as a number it is
  \<open>L1 + ... + Lk\<close> whenever that sum fits the 32 bits in which the host takes the
  count.\<close>

theorem bytes_reported_is_sum:
  "reports (host_calls (snd (my_queue_rq h rq s))) =
     reports (host_calls s) @ [(BLK_STS_OK, sum_list (map bv_len (rq_segments rq)))] \<and>
   (sum_list (map (\<lambda>b. unat (bv_len b)) (rq_segments rq)) < 2 ^ 32 \<longrightarrow>
      map (\<lambda>r. unat (snd r)) (reports (host_calls (snd (my_queue_rq h rq s)))) =
        map (\<lambda>r. unat (snd r)) (reports (host_calls s)) @
          [sum_list (map (\<lambda>b. unat (bv_len b)) (rq_segments rq))])"
  by (simp add: reports_tail unat_sum_bv_len)

theorem bytes_reported_is_sum_witness:
  "sum_list (map (\<lambda>b. unat (bv_len b)) (rq_segments rq_two)) < 2 ^ 32 \<and>
   reports (host_calls (snd (my_queue_rq host_done rq_two io_fresh))) = [(BLK_STS_OK, 8)] \<and>
   map (\<lambda>r. unat (snd r)) (reports (host_calls (snd (my_queue_rq host_done rq_two io_fresh)))) = [4 + 4]"
  using bytes_reported_is_sum [of host_done rq_two io_fresh]
  by (simp add: rq_two_def seg4_def io_fresh_def)

subsection \<open>C3: requests beyond the backing buffer\<close>

text \<open>The claim as written fails: a write request at sector 1, whose only segment ends
  at byte 520 of a device with an 8-byte buffer, completes with status success.\<close>

theorem beyond_bounds_counterexample:
  "out_of_bounds rq_beyond \<and>
   fst (my_queue_rq host_done rq_beyond io_fresh) = Inr BLK_STS_OK \<and>
   fst (my_queue_rq host_done rq_beyond io_fresh) \<noteq> Inr BLK_STS_IOERR \<and>
   reports (host_calls (snd (my_queue_rq host_done rq_beyond io_fresh))) = [(BLK_STS_OK, 8)]"
  by (simp add: my_queue_rq_result reports_tail out_of_bounds_def rq_beyond_def seg8_def
      host_done_def io_fresh_def BUFFER_SIZE_def SECTOR_SHIFT_def)

text \<open>Claim C3, as the code has it. No offset is compared with the buffer size and no
  byte is moved, so a request with a segment beyond the backing buffer is served like
  any other: once the host has accepted the report, it completes with status success,
  never with an I/O error, reporting the sum of its segment lengths; the backing buffer
  and the segment memory are unchanged as a whole; and a request dispatched after it
  gets the result and the report it would have got without it.\<close>

theorem beyond_bounds_still_succeeds:
  assumes "out_of_bounds rq"
    and "\<not> blk_update_request h rq BLK_STS_OK (sum_list (map bv_len (rq_segments rq)))"
  shows "fst (my_queue_rq h rq s) = Inr BLK_STS_OK \<and>
    reports (host_calls (snd (my_queue_rq h rq s))) =
      reports (host_calls s) @ [(BLK_STS_OK, sum_list (map bv_len (rq_segments rq)))] \<and>
    backing (snd (my_queue_rq h rq s)) = backing s \<and>
    memory (snd (my_queue_rq h rq s)) = memory s \<and>
    fst (my_queue_rq h rq' (snd (my_queue_rq h rq s))) = fst (my_queue_rq h rq' s) \<and>
    reports (host_calls (snd (my_queue_rq h rq' (snd (my_queue_rq h rq s))))) =
      reports (host_calls (snd (my_queue_rq h rq s))) @
        [(BLK_STS_OK, sum_list (map bv_len (rq_segments rq')))]"
proof -
  have "fst (my_queue_rq h rq s) = Inr BLK_STS_OK"
    using assms(2) by (simp add: my_queue_rq_result)
  moreover have "backing (snd (my_queue_rq h rq s)) = backing s"
    and "memory (snd (my_queue_rq h rq s)) = memory s"
    by (simp_all add: my_queue_rq_state)
  moreover have "fst (my_queue_rq h rq' (snd (my_queue_rq h rq s))) = fst (my_queue_rq h rq' s)"
    by (simp only: my_queue_rq_result)
  ultimately show ?thesis by (simp only: reports_tail simp_thms)
qed

theorem beyond_bounds_still_succeeds_witness:
  "out_of_bounds rq_beyond \<and>
   fst (my_queue_rq host_done rq_beyond io_fresh) = Inr BLK_STS_OK \<and>
   reports (host_calls (snd (my_queue_rq host_done rq_beyond io_fresh))) = [(BLK_STS_OK, 8)] \<and>
   backing (snd (my_queue_rq host_done rq_beyond io_fresh)) = [0, 0, 0, 0, 0, 0, 0, 0] \<and>
   reports (host_calls (snd (my_queue_rq host_done rq_two (snd (my_queue_rq host_done rq_beyond io_fresh))))) =
     [(BLK_STS_OK, 8), (BLK_STS_OK, 8)]"
proof -
  have b: "out_of_bounds rq_beyond"
    by (simp add: out_of_bounds_def rq_beyond_def seg8_def BUFFER_SIZE_def SECTOR_SHIFT_def)
  have a: "\<not> blk_update_request host_done rq_beyond BLK_STS_OK
              (sum_list (map bv_len (rq_segments rq_beyond)))"
    by (simp add: host_done_def)
  show ?thesis
    using b beyond_bounds_still_succeeds [OF b a, of io_fresh rq_two]
    by (simp add: rq_beyond_def rq_two_def seg8_def seg4_def io_fresh_def)
qed

subsection \<open>C4: the offset\<close>

text \<open>Claim C4. \<^verbatim>\<open>do_request\<close> starts from the offset \<^verbatim>\<open>blk_rq_pos(rq) << SECTOR_SHIFT\<close>;
  the frames the walk passes through are those of the segments in the order the request
  lists them (the k-th frame holds the address and the length of the k-th segment, and
  the starting offset plus the lengths of the first k segments); and the walk ends in the
  last of these frames, with the starting offset plus the sum of all segment lengths, in
  the 64 bits of \<^verbatim>\<open>loff_t\<close>. Read as numbers: sector times 512 plus the sum of the
  lengths, as long as that is below \<open>2 ^ 64\<close>.\<close>

theorem offset_advances:
  "offset (do_request_entry rq nr s) = push_bit SECTOR_SHIFT (blk_rq_pos rq) \<and>
   last (do_request_entry rq nr s # do_request_history h rq nr s) = do_request_frame h rq nr s \<and>
   map data_ptr (do_request_history h rq nr s) =
     map (\<lambda>b. Some (page_address h (bv_page b) + ucast (bv_offset b))) (rq_segments rq) \<and>
   map data_len (do_request_history h rq nr s) =
     map (\<lambda>b. Some (ucast (bv_len b))) (rq_segments rq) \<and>
   map offset (do_request_history h rq nr s) =
     map (\<lambda>k. push_bit SECTOR_SHIFT (blk_rq_pos rq) +
                sum_list (map (\<lambda>b. ucast (bv_len b)) (take (Suc k) (rq_segments rq))))
       [0..<length (rq_segments rq)] \<and>
   offset (do_request_frame h rq nr s) =
     push_bit SECTOR_SHIFT (blk_rq_pos rq) + sum_list (map (\<lambda>b. ucast (bv_len b)) (rq_segments rq)) \<and>
   (unat (blk_rq_pos rq) * 2 ^ SECTOR_SHIFT +
      sum_list (map (\<lambda>b. unat (bv_len b)) (rq_segments rq)) < 2 ^ 64 \<longrightarrow>
    unat (offset (do_request_frame h rq nr s)) =
      unat (blk_rq_pos rq) * 2 ^ SECTOR_SHIFT + sum_list (map (\<lambda>b. unat (bv_len b)) (rq_segments rq)))"
proof -
  have e: "offset (do_request_entry rq nr s) = push_bit SECTOR_SHIFT (blk_rq_pos rq)"
    by (simp add: do_request_entry_def)
  have l: "last (do_request_entry rq nr s # do_request_history h rq nr s) = do_request_frame h rq nr s"
    unfolding do_request_frame_def do_request_history_def by (rule loop_last [symmetric])
  have p: "map data_ptr (do_request_history h rq nr s) =
     map (\<lambda>b. Some (page_address h (bv_page b) + ucast (bv_offset b))) (rq_segments rq)"
    unfolding do_request_history_def by (rule history_data_ptr)
  have d: "map data_len (do_request_history h rq nr s) =
     map (\<lambda>b. Some (ucast (bv_len b))) (rq_segments rq)"
    unfolding do_request_history_def by (rule history_data_len)
  have o: "map offset (do_request_history h rq nr s) =
     map (\<lambda>k. push_bit SECTOR_SHIFT (blk_rq_pos rq) +
                sum_list (map (\<lambda>b. ucast (bv_len b)) (take (Suc k) (rq_segments rq))))
       [0..<length (rq_segments rq)]"
    unfolding do_request_history_def by (simp only: history_offset e)
  have f: "offset (do_request_frame h rq nr s) =
     push_bit SECTOR_SHIFT (blk_rq_pos rq) + sum_list (map (\<lambda>b. ucast (bv_len b)) (rq_segments rq))"
    unfolding do_request_frame_def by (simp only: loop_offset e)
  have n: "unat (blk_rq_pos rq) * 2 ^ SECTOR_SHIFT +
      sum_list (map (\<lambda>b. unat (bv_len b)) (rq_segments rq)) < 2 ^ 64 \<longrightarrow>
    unat (offset (do_request_frame h rq nr s)) =
      unat (blk_rq_pos rq) * 2 ^ SECTOR_SHIFT + sum_list (map (\<lambda>b. unat (bv_len b)) (rq_segments rq))"
    unfolding f using unat_offset by blast
  from e l p d o f n show ?thesis by blast
qed

theorem offset_advances_witness:
  "unat (blk_rq_pos rq_beyond) * 2 ^ SECTOR_SHIFT +
      sum_list (map (\<lambda>b. unat (bv_len b)) (rq_segments rq_beyond)) < 2 ^ 64 \<and>
   offset (do_request_entry rq_beyond 0 io_fresh) = 512 \<and>
   unat (offset (do_request_frame host_done rq_beyond 0 io_fresh)) = 512 + 8 \<and>
   map data_len (do_request_history host_done rq_two 0 io_fresh) = [Some 4, Some 4] \<and>
   map offset (do_request_history host_done rq_two 0 io_fresh) = [4, 8]"
  using offset_advances [of rq_beyond 0 io_fresh host_done]
    offset_advances [of rq_two 0 io_fresh host_done]
  by (simp add: rq_beyond_def rq_two_def seg8_def seg4_def SECTOR_SHIFT_def upt_rec)

subsection \<open>The report of a full walk is accepted\<close>

text \<open>The dispatcher reports the bytes of all segments, so a host that honours the
  contract of \<^verbatim>\<open>blk_update_request\<close> on the request answers that nothing is pending, and
  the \<^verbatim>\<open>BUG()\<close> of line 101 is not reached.\<close>

lemma full_report_accepted:
  assumes "blk_update_request h rq = pending_after rq"
  shows "\<not> blk_update_request h rq BLK_STS_OK (sum_list (map bv_len (rq_segments rq)))"
  using assms by (simp add: pending_after_def blk_rq_bytes_def)

lemma my_queue_rq_served:
  assumes "blk_update_request h rq = pending_after rq"
  shows "my_queue_rq h rq s =
    (Inr BLK_STS_OK,
     s\<lparr>klog := klog s @ replicate (length (rq_segments rq)) (dir_message (rq_data_dir rq)),
       host_calls := host_calls s @
         [Start_request rq, Update_request rq BLK_STS_OK (blk_rq_bytes rq),
          End_request rq BLK_STS_OK]\<rparr>)"
proof -
  note a = full_report_accepted [OF assms]
  have "fst (my_queue_rq h rq s) = Inr BLK_STS_OK"
    using a by (simp add: my_queue_rq_result)
  moreover have "snd (my_queue_rq h rq s) =
     s\<lparr>klog := klog s @ replicate (length (rq_segments rq)) (dir_message (rq_data_dir rq)),
       host_calls := host_calls s @
         [Start_request rq, Update_request rq BLK_STS_OK (blk_rq_bytes rq),
          End_request rq BLK_STS_OK]\<rparr>"
    using a by (simp add: my_queue_rq_state blk_rq_bytes_def)
  ultimately show ?thesis by (simp add: prod_eq_iff)
qed

subsection \<open>C5: a request without segments\<close>

text \<open>Claim C5. For every request with zero segments, delivered by a host that honours
  the contract of \<^verbatim>\<open>blk_update_request\<close>, the dispatcher completes the request with
  status success and reports zero bytes: it starts the request, reports success and 0
  bytes, ends the request with success and returns success, the log and the rest of the
  state left as they were.\<close>

theorem empty_request_completes:
  assumes "rq_segments rq = []"
    and "blk_update_request h rq = pending_after rq"
  shows "my_queue_rq h rq s =
      (Inr BLK_STS_OK,
       s\<lparr>host_calls := host_calls s @
          [Start_request rq, Update_request rq BLK_STS_OK 0, End_request rq BLK_STS_OK]\<rparr>) \<and>
    reports (host_calls (snd (my_queue_rq h rq s))) = reports (host_calls s) @ [(BLK_STS_OK, 0)]"
proof -
  have z: "blk_rq_bytes rq = 0"
    using assms(1) by (simp add: blk_rq_bytes_def)
  have "my_queue_rq h rq s =
      (Inr BLK_STS_OK,
       s\<lparr>host_calls := host_calls s @
          [Start_request rq, Update_request rq BLK_STS_OK 0, End_request rq BLK_STS_OK]\<rparr>)"
    using assms(1) by (simp add: my_queue_rq_served [OF assms(2)] z)
  then show ?thesis by (simp add: reports_append)
qed

theorem empty_request_completes_witness:
  "rq_segments rq_empty = [] \<and>
   blk_update_request host_block_layer rq_empty = pending_after rq_empty \<and>
   my_queue_rq host_block_layer rq_empty io_fresh =
     (Inr BLK_STS_OK, io_fresh\<lparr>host_calls :=
        [Start_request rq_empty, Update_request rq_empty BLK_STS_OK 0,
         End_request rq_empty BLK_STS_OK]\<rparr>) \<and>
   reports (host_calls (snd (my_queue_rq host_block_layer rq_empty io_fresh))) = [(BLK_STS_OK, 0)]"
proof -
  have e: "rq_segments rq_empty = []" by (simp add: rq_empty_def)
  have c: "blk_update_request host_block_layer rq_empty = pending_after rq_empty"
    by (simp add: host_block_layer_def)
  show ?thesis
    using e c empty_request_completes [OF e c, of io_fresh]
    by (simp add: io_fresh_def)
qed

subsection \<open>C6: the calls into the host\<close>

text \<open>Claim C6. For every request delivered by a host that honours the contract of
  \<^verbatim>\<open>blk_update_request\<close>, the dispatcher calls \<^verbatim>\<open>blk_mq_start_request\<close>, then
  \<^verbatim>\<open>blk_update_request\<close>, then \<^verbatim>\<open>__blk_mq_end_request\<close>, exactly once each and in that
  order, on that request, and makes no other call into the host; the report carries the
  bytes of the request, report and end carry status success, and the dispatcher returns
  success.\<close>

theorem host_calls_once_each:
  assumes "blk_update_request h rq = pending_after rq"
  shows "host_calls (snd (my_queue_rq h rq s)) =
      host_calls s @
        [Start_request rq, Update_request rq BLK_STS_OK (blk_rq_bytes rq),
         End_request rq BLK_STS_OK] \<and>
    served_once rq (drop (length (host_calls s)) (host_calls (snd (my_queue_rq h rq s)))) \<and>
    fst (my_queue_rq h rq s) = Inr BLK_STS_OK"
  by (simp add: my_queue_rq_served [OF assms])

theorem host_calls_once_each_witness:
  "blk_update_request host_block_layer rq_two = pending_after rq_two \<and>
   host_calls (snd (my_queue_rq host_block_layer rq_two io_fresh)) =
     [Start_request rq_two, Update_request rq_two BLK_STS_OK 8, End_request rq_two BLK_STS_OK] \<and>
   served_once rq_two (host_calls (snd (my_queue_rq host_block_layer rq_two io_fresh))) \<and>
   fst (my_queue_rq host_block_layer rq_two io_fresh) = Inr BLK_STS_OK"
proof -
  have c: "blk_update_request host_block_layer rq_two = pending_after rq_two"
    by (simp add: host_block_layer_def)
  have b: "blk_rq_bytes rq_two = 8"
    by (simp add: blk_rq_bytes_def rq_two_def seg4_def)
  show ?thesis
    using c host_calls_once_each [OF c, of io_fresh]
    by (simp add: b io_fresh_def)
qed

subsection \<open>C10: the backing buffer is out of the data path\<close>

text \<open>Claim C10. For every request, host and state, the dispatcher leaves the backing
  buffer as it found it, and nothing it does depends on the buffer: with other bytes in
  the buffer it returns the same result and the same state, those bytes apart.\<close>

theorem backing_untouched:
  "backing (snd (my_queue_rq h rq s)) = backing s \<and>
   my_queue_rq h rq (s\<lparr>backing := b\<rparr>) =
     (fst (my_queue_rq h rq s), (snd (my_queue_rq h rq s))\<lparr>backing := b\<rparr>)"
  by (simp add: my_queue_rq_state my_queue_rq_result prod_eq_iff)

theorem backing_untouched_witness:
  "backing (snd (my_queue_rq host_done rq_scenario_A io_fresh)) = [0, 0, 0, 0, 0, 0, 0, 0] \<and>
   backing (snd (my_queue_rq host_done rq_two (io_fresh\<lparr>backing := [1, 2, 3, 4, 5, 6, 7, 8]\<rparr>))) =
     [1, 2, 3, 4, 5, 6, 7, 8]"
  using backing_untouched [of host_done rq_scenario_A io_fresh "[1, 2, 3, 4, 5, 6, 7, 8]"]
    backing_untouched [of host_done rq_two io_fresh "[1, 2, 3, 4, 5, 6, 7, 8]"]
  by (simp add: io_fresh_def)

section \<open>What setup and teardown do\<close>

text \<open>With a null \<^verbatim>\<open>dev\<close>, a setup whose registration succeeds faults at its first
  access to the descriptor, and neither setup nor teardown ever makes \<^verbatim>\<open>dev\<close> point
  anywhere.\<close>

lemma init_fn_null_dev:
  assumes "dev s = None" and "0 \<le> register_blkdev k (major_num s)"
  shows "init_fn k s =
    (Inl NULL_DEREF,
     s\<lparr>major_num := register_blkdev k (major_num s),
       kcalls := kcalls s @ [Register_blkdev (major_num s) BLOCK_DEV_NAME, Alloc_disk 1]\<rparr>)"
  using assms by (simp add: init_fn_def Let_def kcall_def)

lemma dev_stays_null:
  assumes "dev s = None"
  shows "dev (snd (init_fn k s)) = None" and "dev (snd (cleanup_fn s)) = None"
  using assms by (simp_all add: init_fn_def cleanup_fn_def Let_def kcall_def)

text \<open>A failed registration ends setup at once, whatever \<^verbatim>\<open>dev\<close> is.\<close>

lemma init_fn_busy:
  assumes "register_blkdev k (major_num s) < 0"
  shows "init_fn k s =
    (Inr (- EBUSY),
     s\<lparr>major_num := register_blkdev k (major_num s),
       kcalls := kcalls s @ [Register_blkdev (major_num s) BLOCK_DEV_NAME,
         Pr_info ''Failed to register blk device numbers'']\<rparr>)"
  using assms by (simp add: init_fn_def Let_def kcall_def)

text \<open>With a descriptor in place: a setup in which registration, disk and buffer succeed
  returns 0 whatever \<^verbatim>\<open>blk_mq_init_sq_queue\<close> returned.\<close>

lemma init_fn_completed:
  assumes "dev s = Some d" and "0 \<le> register_blkdev k (major_num s)"
    and "alloc_disk k = Some g" and "kmalloc k = Some b"
  shows "fst (init_fn k s) = Inr 0"
    and "major_num (snd (init_fn k s)) = register_blkdev k (major_num s)"
    and "dev (snd (init_fn k s)) =
      Some (d\<lparr>gd := Some (g\<lparr>major := register_blkdev k (major_num s), first_minor := 0,
                 fops := Some ''my_bops'', gd_queue := blk_mq_init_sq_queue k,
                 private_data := True, disk_name := take 31 BLOCK_DEV_NAME,
                 capacity := NR_SECTORS\<rparr>),
             queue := blk_mq_init_sq_queue k,
             dev_size := int (NR_SECTORS * K_SECTOR_SIZE), data := Some b\<rparr>)"
    and "kcalls (snd (init_fn k s)) = kcalls s @
      [Register_blkdev (major_num s) BLOCK_DEV_NAME, Alloc_disk 1, Blk_mq_init_sq_queue 128,
       Set_capacity NR_SECTORS, Kmalloc BUFFER_SIZE,
       Add_disk (g\<lparr>major := register_blkdev k (major_num s), first_minor := 0,
                 fops := Some ''my_bops'', gd_queue := blk_mq_init_sq_queue k,
                 private_data := True, disk_name := take 31 BLOCK_DEV_NAME,
                 capacity := NR_SECTORS\<rparr>),
       Pr_info ''Kernel Module - my_block_device inserted successfully...'']"
  using assms by (simp_all add: init_fn_def Let_def kcall_def)

text \<open>The failing runs of setup from a zeroed descriptor, one per step that is tested.\<close>

lemma setup_paths_with_descriptor:
  "init_fn kernel_busy module_with_dev =
     (Inr (- 16), module_with_dev\<lparr>major_num := - 16, kcalls :=
        [Register_blkdev 0 ''my_block_device'', Pr_info ''Failed to register blk device numbers'']\<rparr>)"
  "fst (init_fn kernel_no_disk module_with_dev) = Inr (- 12)"
  "kcalls (snd (init_fn kernel_no_disk module_with_dev)) =
     [Register_blkdev 0 ''my_block_device'', Alloc_disk 1, Pr_info ''Failed to allocate disk'',
      Unregister_blkdev 240 ''my_block_device'']"
  "fst (init_fn kernel_no_buffer module_with_dev) = Inr (- 12)"
  "kcalls (snd (init_fn kernel_no_buffer module_with_dev)) =
     [Register_blkdev 0 ''my_block_device'', Alloc_disk 1, Blk_mq_init_sq_queue 128,
      Set_capacity 1024, Kmalloc 8, Pr_info ''Cannot allocate memory for dev'',
      Del_gendisk \<lparr>major = 240, first_minor = 0, fops = Some ''my_bops'',
                gd_queue = QUEUE 1, private_data = True,
                disk_name = ''my_block_device'', capacity = 1024\<rparr>,
      Blk_mq_free_tag_set, Blk_cleanup_queue (QUEUE 1),
      Unregister_blkdev 240 ''my_block_device'']"
  by (simp_all add: init_fn_def r_blk_init_def r_disk_def Let_def kcall_def
      kernel_busy_def kernel_no_disk_def kernel_no_buffer_def kernel_ok_def
      zeroed_disk_def zeroed_dev_def module_loaded_def module_with_dev_def
      BLOCK_DEV_NAME_def NR_SECTORS_def K_SECTOR_SIZE_def BUFFER_SIZE_def EBUSY_def ENOMEM_def)

text \<open>Teardown with a descriptor in place.\<close>

lemma cleanup_fn_calls:
  assumes "dev s = Some d"
  shows "cleanup_fn s =
    (Inr (), s\<lparr>kcalls := kcalls s @
       (case gd d of None \<Rightarrow> [] | Some g \<Rightarrow> [Del_gendisk g, Put_disk g]) @
       (if queue d = NULL_QUEUE then [] else [Blk_mq_free_tag_set, Blk_cleanup_queue (queue d)]) @
       [Kfree (data d), Unregister_blkdev (major_num s) BLOCK_DEV_NAME,
        Pr_info ''Device driver - my_block_device removed successfully'']\<rparr>)"
  using assms by (simp add: cleanup_fn_def Let_def kcall_def split: option.splits)

section \<open>Claims about the life cycle\<close>

subsection \<open>C7: unwinding a failed setup\<close>

text \<open>Claim C7, at two failing runs. In the module as loaded, with the registration
  granted and \<^verbatim>\<open>alloc_disk\<close> failing, setup faults on the null descriptor right after
  the call: the device number is not unregistered and no error code is returned. And
  with a descriptor in place, a setup whose queue creation fails with an error pointer
  goes on, publishes the disk with that pointer as its queue and returns 0.\<close>

theorem setup_failure_not_unwound:
  "fst (init_fn kernel_no_disk module_loaded) = Inl NULL_DEREF \<and>
   kcalls (snd (init_fn kernel_no_disk module_loaded)) =
     [Register_blkdev 0 ''my_block_device'', Alloc_disk 1] \<and>
   fst (init_fn kernel_no_queue module_with_dev) = Inr 0 \<and>
   kcalls (snd (init_fn kernel_no_queue module_with_dev)) =
     [Register_blkdev 0 ''my_block_device'', Alloc_disk 1, Blk_mq_init_sq_queue 128,
      Set_capacity 1024, Kmalloc 8,
      Add_disk \<lparr>major = 240, first_minor = 0, fops = Some ''my_bops'',
                gd_queue = ERR_PTR (- 12), private_data = True,
                disk_name = ''my_block_device'', capacity = 1024\<rparr>,
      Pr_info ''Kernel Module - my_block_device inserted successfully...'']"
  by (simp add: init_fn_def Let_def kcall_def kernel_no_disk_def kernel_no_queue_def kernel_ok_def
      zeroed_disk_def zeroed_dev_def module_loaded_def module_with_dev_def
      BLOCK_DEV_NAME_def NR_SECTORS_def K_SECTOR_SIZE_def BUFFER_SIZE_def ENOMEM_def)

subsection \<open>C8: teardown\<close>

text \<open>The claim as written fails. With a descriptor in place and no setup step done,
  teardown passes the buffer pointer to \<^verbatim>\<open>kfree\<close> and unregisters a device number that
  was never registered; and in the module as loaded, after the registration alone,
  teardown faults on the null descriptor and releases nothing.\<close>

theorem teardown_counterexample:
  "kcalls module_with_dev = [] \<and> major_num module_with_dev = 0 \<and>
   kcalls (snd (cleanup_fn module_with_dev)) =
     [Kfree None, Unregister_blkdev 0 ''my_block_device'',
      Pr_info ''Device driver - my_block_device removed successfully''] \<and>
   cleanup_fn (module_loaded\<lparr>major_num := 240\<rparr>) =
     (Inl NULL_DEREF, module_loaded\<lparr>major_num := 240\<rparr>)"
  by (simp add: cleanup_fn_def Let_def kcall_def zeroed_dev_def module_loaded_def
      module_with_dev_def BLOCK_DEV_NAME_def)

text \<open>Claim C8, as the code has it. With a descriptor in place, teardown makes each
  release at most once and tests two of them only: it unpublishes and puts the disk if
  the disk pointer is not null, and frees the tag set and cleans up the queue if the
  queue pointer is not null; it passes the buffer pointer to \<^verbatim>\<open>kfree\<close> and unregisters the
  device number without a test. After a setup that completed with a queue, it therefore
  releases the disk, the tag set, the queue, the buffer and the device number, once each
  and in that order.\<close>

theorem teardown_guards:
  assumes "dev s = Some d"
  shows "cleanup_fn s =
    (Inr (), s\<lparr>kcalls := kcalls s @
       (case gd d of None \<Rightarrow> [] | Some g \<Rightarrow> [Del_gendisk g, Put_disk g]) @
       (if queue d = NULL_QUEUE then [] else [Blk_mq_free_tag_set, Blk_cleanup_queue (queue d)]) @
       [Kfree (data d), Unregister_blkdev (major_num s) BLOCK_DEV_NAME,
        Pr_info ''Device driver - my_block_device removed successfully'']\<rparr>) \<and>
    (0 \<le> register_blkdev k (major_num s) \<and> alloc_disk k = Some g \<and>
     blk_mq_init_sq_queue k = QUEUE n \<and> kmalloc k = Some b \<longrightarrow>
     fst (init_fn k s) = Inr 0 \<and>
     fst (cleanup_fn (snd (init_fn k s))) = Inr () \<and>
     kcalls (snd (cleanup_fn (snd (init_fn k s)))) = kcalls (snd (init_fn k s)) @
       (let g' = g\<lparr>major := register_blkdev k (major_num s), first_minor := 0,
                   fops := Some ''my_bops'', gd_queue := QUEUE n,
                   private_data := True, disk_name := take 31 BLOCK_DEV_NAME,
                   capacity := NR_SECTORS\<rparr>
        in [Del_gendisk g', Put_disk g', Blk_mq_free_tag_set, Blk_cleanup_queue (QUEUE n),
            Kfree (Some b), Unregister_blkdev (register_blkdev k (major_num s)) BLOCK_DEV_NAME,
            Pr_info ''Device driver - my_block_device removed successfully'']))"
proof -
  have one: "cleanup_fn s =
    (Inr (), s\<lparr>kcalls := kcalls s @
       (case gd d of None \<Rightarrow> [] | Some g \<Rightarrow> [Del_gendisk g, Put_disk g]) @
       (if queue d = NULL_QUEUE then [] else [Blk_mq_free_tag_set, Blk_cleanup_queue (queue d)]) @
       [Kfree (data d), Unregister_blkdev (major_num s) BLOCK_DEV_NAME,
        Pr_info ''Device driver - my_block_device removed successfully'']\<rparr>)"
    using assms by (rule cleanup_fn_calls)
  have two: "fst (init_fn k s) = Inr 0 \<and>
     fst (cleanup_fn (snd (init_fn k s))) = Inr () \<and>
     kcalls (snd (cleanup_fn (snd (init_fn k s)))) = kcalls (snd (init_fn k s)) @
       (let g' = g\<lparr>major := register_blkdev k (major_num s), first_minor := 0,
                   fops := Some ''my_bops'', gd_queue := QUEUE n,
                   private_data := True, disk_name := take 31 BLOCK_DEV_NAME,
                   capacity := NR_SECTORS\<rparr>
        in [Del_gendisk g', Put_disk g', Blk_mq_free_tag_set, Blk_cleanup_queue (QUEUE n),
            Kfree (Some b), Unregister_blkdev (register_blkdev k (major_num s)) BLOCK_DEV_NAME,
            Pr_info ''Device driver - my_block_device removed successfully''])"
    if ok: "0 \<le> register_blkdev k (major_num s)" "alloc_disk k = Some g"
      "blk_mq_init_sq_queue k = QUEUE n" "kmalloc k = Some b"
  proof -
    note c = init_fn_completed [OF assms ok(1) ok(2) ok(4)]
    have "cleanup_fn (snd (init_fn k s)) = (Inr (), (snd (init_fn k s))\<lparr>kcalls := kcalls (snd (init_fn k s)) @
       (let g' = g\<lparr>major := register_blkdev k (major_num s), first_minor := 0,
                   fops := Some ''my_bops'', gd_queue := QUEUE n,
                   private_data := True, disk_name := take 31 BLOCK_DEV_NAME,
                   capacity := NR_SECTORS\<rparr>
        in [Del_gendisk g', Put_disk g', Blk_mq_free_tag_set, Blk_cleanup_queue (QUEUE n),
            Kfree (Some b), Unregister_blkdev (register_blkdev k (major_num s)) BLOCK_DEV_NAME,
            Pr_info ''Device driver - my_block_device removed successfully''])\<rparr>)"
      by (simp add: cleanup_fn_calls [OF c(3)] c(2) ok(3) Let_def)
    then show ?thesis by (simp add: c(1))
  qed
  from one two show ?thesis by blast
qed

theorem teardown_guards_witness:
  "dev module_with_dev = Some zeroed_dev \<and>
   kcalls (snd (cleanup_fn module_with_dev)) =
     [Kfree None, Unregister_blkdev 0 ''my_block_device'',
      Pr_info ''Device driver - my_block_device removed successfully''] \<and>
   fst (init_fn kernel_ok module_with_dev) = Inr 0 \<and>
   drop 7 (kcalls (snd (cleanup_fn (snd (init_fn kernel_ok module_with_dev))))) =
     [Del_gendisk \<lparr>major = 240, first_minor = 0, fops = Some ''my_bops'',
                gd_queue = QUEUE 1, private_data = True,
                disk_name = ''my_block_device'', capacity = 1024\<rparr>,
      Put_disk \<lparr>major = 240, first_minor = 0, fops = Some ''my_bops'',
                gd_queue = QUEUE 1, private_data = True,
                disk_name = ''my_block_device'', capacity = 1024\<rparr>,
      Blk_mq_free_tag_set, Blk_cleanup_queue (QUEUE 1), Kfree (Some 4096),
      Unregister_blkdev 240 ''my_block_device'',
      Pr_info ''Device driver - my_block_device removed successfully'']"
proof -
  have d: "dev module_with_dev = Some zeroed_dev"
    by (simp add: module_with_dev_def)
  have i: "kcalls (snd (init_fn kernel_ok module_with_dev)) =
     [Register_blkdev 0 ''my_block_device'', Alloc_disk 1, Blk_mq_init_sq_queue 128,
      Set_capacity 1024, Kmalloc 8,
      Add_disk \<lparr>major = 240, first_minor = 0, fops = Some ''my_bops'',
                gd_queue = QUEUE 1, private_data = True,
                disk_name = ''my_block_device'', capacity = 1024\<rparr>,
      Pr_info ''Kernel Module - my_block_device inserted successfully...'']"
    by (simp add: init_fn_def Let_def kcall_def kernel_ok_def zeroed_disk_def zeroed_dev_def
        module_loaded_def module_with_dev_def BLOCK_DEV_NAME_def NR_SECTORS_def
        K_SECTOR_SIZE_def BUFFER_SIZE_def)
  show ?thesis
    using d teardown_guards [OF d, of kernel_ok zeroed_disk 1 4096]
    by (simp add: i)
      (simp add: kernel_ok_def zeroed_disk_def zeroed_dev_def module_loaded_def
        module_with_dev_def BLOCK_DEV_NAME_def NR_SECTORS_def Let_def)
qed

subsection \<open>C9: the descriptor\<close>

text \<open>Claim C9, at the module as loaded with a kernel that grants every request. The
  descriptor pointer is null, setup allocates nothing for it, and its first access to
  the descriptor, the store of the new disk, faults; the pointer is still null
  afterwards.\<close>

theorem setup_null_descriptor:
  "dev module_loaded = None \<and>
   fst (init_fn kernel_ok module_loaded) = Inl NULL_DEREF \<and>
   kcalls (snd (init_fn kernel_ok module_loaded)) =
     [Register_blkdev 0 ''my_block_device'', Alloc_disk 1] \<and>
   dev (snd (init_fn kernel_ok module_loaded)) = None"
  by (simp add: init_fn_def Let_def kcall_def kernel_ok_def module_loaded_def BLOCK_DEV_NAME_def)

end
